theory Spec2Isabelle
  imports Complex_Main
begin

section \<open>The recommendation engine of report.ts\<close>

text \<open>
  This theory embeds \<^verbatim>\<open>computeRecommendations\<close> of \<^verbatim>\<open>src/report.ts\<close> and the data
  it reads and returns. A metric value is a \<^typ>\<open>real\<close>: the decimal that the database
  delivers. The result of \<^verbatim>\<open>Math.ceil\<close> and \<^verbatim>\<open>Math.round\<close> is an \<^typ>\<open>int\<close>, a row
  count or a list length a \<^typ>\<open>nat\<close>. The two products that the function returns as
  numbers, the transaction retention and the disk estimate before its rounding, are
  computed in IEEE doubles, with the rounding of every operation written out
  (\<open>toDouble\<close> below). The other arithmetic ends in a ceiling, a comparison or a
  rounding to tenths and is done on the exact values. NaN and the infinities are
  outside the model: an Oracle NUMBER is finite and its products here stay far inside
  the range of the normal doubles.
\<close>

subsection \<open>Values of type any\<close>

text \<open>
  \<^verbatim>\<open>getStatic\<close> returns \<^verbatim>\<open>null\<close> when the static fact is absent, the value of
  \<^verbatim>\<open>JSON.parse\<close> when the stored text parses, and the stored text itself otherwise.
  An object is the list of its properties.
\<close>

datatype jsval =
    JNull
  | JBool bool
  | JNum real
  | JStr string
  | JArr "jsval list"
  | JObj "(string \<times> jsval) list"

text \<open>
  \<^verbatim>\<open>v?.NAME\<close> for a property name that no string, number, boolean or array has of
  its own: \<open>None\<close> is \<^verbatim>\<open>undefined\<close>.
\<close>

fun optProp :: "jsval \<Rightarrow> string \<Rightarrow> jsval option" where
  "optProp (JObj kvs) k = map_of kvs k"
| "optProp v k = None"

text \<open>The failure of a property read on \<^verbatim>\<open>null\<close>.\<close>

datatype js_error = TypeError

subsection \<open>Template literals\<close>

text \<open>
  A template literal is kept as the list of its pieces: the literal chunks and, for each
  \<^verbatim>\<open>${...}\<close>, the value interpolated there together with the way it is printed.
  \<open>Num x\<close> is a number printed by the default conversion, \<open>Fixed d x\<close> is
  \<^verbatim>\<open>x.toFixed(d)\<close>, \<open>Str s\<close> is an interpolated string.
\<close>

datatype piece =
    Lit string
  | Str string
  | Num real
  | Fixed nat real

type_synonym template = "piece list"

text \<open>\<^verbatim>\<open>Array.prototype.join\<close> on strings.\<close>

fun join :: "string \<Rightarrow> string list \<Rightarrow> string" where
  "join sep [] = []"
| "join sep [x] = x"
| "join sep (x # y # ys) = x @ sep @ join sep (y # ys)"

subsection \<open>Math\<close>

text \<open>
  \<^verbatim>\<open>Math.round\<close> rounds to the nearest integer, a half towards plus infinity.
\<close>

definition Math_round :: "real \<Rightarrow> int" where
  "Math_round x = \<lfloor>x + 1 / 2\<rfloor>"

definition Math_ceil :: "real \<Rightarrow> int" where
  "Math_ceil x = \<lceil>x\<rceil>"

subsection \<open>IEEE doubles\<close>

text \<open>
  \<open>toDouble x\<close> is the double nearest to \<open>x\<close>, a tie going to the even significand:
  the value a decimal has as a JavaScript number, and the result of a multiplication
  whose exact product is \<open>x\<close>. A double of the binade \<open>2^e \<le> |x| < 2^(e+1)\<close> is a
  multiple of \<open>2^(e-52)\<close>. Overflow and subnormal numbers are left out.
\<close>

definition pow2 :: "int \<Rightarrow> real" where
  "pow2 k = (if k \<ge> 0 then 2 ^ nat k else 1 / 2 ^ nat (- k))"

definition roundToEven :: "real \<Rightarrow> int" where
  "roundToEven y =
     (if y - of_int \<lfloor>y\<rfloor> < 1 / 2 then \<lfloor>y\<rfloor>
      else if y - of_int \<lfloor>y\<rfloor> > 1 / 2 then \<lfloor>y\<rfloor> + 1
      else if even \<lfloor>y\<rfloor> then \<lfloor>y\<rfloor> else \<lfloor>y\<rfloor> + 1)"

definition toDouble :: "real \<Rightarrow> real" where
  "toDouble x =
     (if x = 0 then 0
      else real_of_int (roundToEven (x / pow2 (\<lfloor>log 2 \<bar>x\<bar>\<rfloor> - 52)))
             * pow2 (\<lfloor>log 2 \<bar>x\<bar>\<rfloor> - 52))"

subsection \<open>Data model\<close>

text \<open>
  \<^verbatim>\<open>interface MetricStats\<close>; the fields \<^verbatim>\<open>min\<close> and \<^verbatim>\<open>max\<close> carry a suffix.
  \<open>samples\<close> is the \<^verbatim>\<open>COUNT(*)\<close> of the metric's rows.
\<close>

record MetricStats =
  min_v :: real
  max_v :: real
  avg :: real
  p95 :: real
  samples :: nat

text \<open>The rows that \<^verbatim>\<open>collectStatic\<close> of \<^verbatim>\<open>setup.ts\<close> stores as JSON arrays.\<close>

record redo_row =
  GROUP_NUM :: nat
  BYTES :: real
  MEMBERS :: nat
  STATUS :: string

record lob_row =
  TABLE_NAME :: string
  COLUMN_NAME :: string
  DATA_TYPE :: string

text \<open>
  \<^verbatim>\<open>interface DiagReport\<close>, without the slot for the result. \<open>redoLogConfig\<close> and
  \<open>lobColumns\<close> are declared \<^verbatim>\<open>any[]\<close> and filled from \<^verbatim>\<open>getStatic\<close>: \<open>None\<close> is
  the \<^verbatim>\<open>null\<close> of an absent fact. \<open>supplementalLogging\<close> is declared \<^verbatim>\<open>any\<close>.
  The two table counts are \<^verbatim>\<open>parseInt\<close> of the decimal text of a \<^verbatim>\<open>COUNT(*)\<close>.
\<close>

record DiagReport =
  switchesPerHour :: MetricStats
  archiveGbPerHour :: MetricStats
  avgArchiveFileSizeGb :: real
  oldestTxnMinutes :: MetricStats
  activeTxnCount :: MetricStats
  archiveWindowHours :: MetricStats
  archiveDiskUsedGb :: MetricStats
  samplingDurationHours :: real
  redoLogConfig :: "redo_row list option"
  lobColumns :: "lob_row list option"
  capturedTableCount :: nat
  schemaTableCount :: nat
  supplementalLogging :: jsval
  archiveLagTarget :: int
  maxStringSize :: string
  captureSchema :: string
  captureTablePattern :: string

text \<open>\<^verbatim>\<open>interface Recommendations\<close>.\<close>

record Recommendations =
  redoLogSizeGb :: real
  redoLogGroups :: nat
  archiveRetentionHours :: int
  archiveRetentionDiskGb :: int
  lobEnabled :: bool
  lobReason :: template
  transactionRetentionMs :: real
  heartbeatIntervalMs :: nat
  batchSizeDefault :: nat
  batchSizeMax :: nat
  maxRetries :: nat
  queryFilterMode :: string
  archiveLogOnlyMode :: bool
  warnings :: "template list"

subsection \<open>The texts that the engine produces\<close>

definition noLobReason :: template where
  "noLobReason = [Lit ''No LOB columns in captured tables.'']"

definition lobReasonText :: "nat \<Rightarrow> int \<Rightarrow> template" where
  "lobReasonText n hours =
     [Num (real n), Lit '' LOB column(s) found in captured tables. '',
      Lit ''LOB capture disabled by default to prevent watermark pinning. '',
      Lit ''Enable only if LOB data capture is required AND retention is >= '',
      Num (of_int (hours + 1)), Lit ''h.'']"

definition lobWarning :: "lob_row list \<Rightarrow> string \<Rightarrow> template" where
  "lobWarning cols mss =
     [Lit ''LOB columns detected: '',
      Str (join '', '' (map (\<lambda>c. TABLE_NAME c @ ''.'' @ COLUMN_NAME c) cols)),
      Lit ''. '',
      Lit ''If LOB capture is needed, consider VARCHAR2(32767) conversion (max_string_size='',
      Str mss, Lit '').'']"

definition queryFilterWarning :: "real \<Rightarrow> template" where
  "queryFilterWarning ratio =
     [Lit ''Captured tables are '', Fixed 0 (ratio * 100), Lit ''% of schema. '',
      Lit ''query.filter.mode=regex recommended to reduce LogMiner overhead. '',
      Lit ''Monitor that messages still arrive after enabling.'']"

definition archiveLagWarning :: "real \<Rightarrow> template" where
  "archiveLagWarning rate =
     [Lit ''archive_lag_target is 0 and minimum switch rate is '', Num rate, Lit ''/hour. '',
      Lit ''During quiet periods, long gaps without switches can stale the offset. '',
      Lit ''Set archive_lag_target=1800 as a safety net.'']"

definition suppLogWarning :: template where
  "suppLogWarning =
     [Lit ''Minimum supplemental logging is NOT enabled. Debezium requires at least minimal supplemental logging.'']"

text \<open>The dash of the last text is U+2014, written here as its three UTF-8 bytes.\<close>

definition retentionRiskWarning :: "real \<Rightarrow> int \<Rightarrow> template" where
  "retentionRiskWarning window hours =
     [Lit ''ORA-00308 RISK: observed minimum archive window is '', Fixed 1 window, Lit ''h '',
      Lit ''but recommended retention is '', Num (of_int hours), Lit ''h. '',
      Lit (''The current cleanup policy is deleting archives too soon ''
           @ [CHR 0xE2, CHR 0x80, CHR 0x94] @ '' LogMiner will lose files ''),
      Lit ''it still needs. Raise RMAN retention or reduce archive generation before enabling Debezium.'']"

subsection \<open>computeRecommendations\<close>

text \<open>
  Each local of the function body is a definition of its own, in the order of the
  source. A local that has the name of a field of the result carries the suffix
  \<open>_of\<close>.
\<close>

definition hasLobs :: "DiagReport \<Rightarrow> bool" where
  "hasLobs r = (case lobColumns r of None \<Rightarrow> False | Some cols \<Rightarrow> length cols > 0)"

text \<open>Redo log sizing. \<open>cfg\<close> is the array \<^verbatim>\<open>r.redoLogConfig\<close>.\<close>

definition currentRedoSizeGb :: "redo_row list \<Rightarrow> real" where
  "currentRedoSizeGb cfg = (if length cfg > 0 then BYTES (cfg ! 0) / (1024 ^ 3) else 4)"

definition currentGroups :: "redo_row list \<Rightarrow> nat" where
  "currentGroups cfg = length cfg"

definition targetSwitches :: real where
  "targetSwitches = 4"

text \<open>\<^verbatim>\<open>r.archiveGbPerHour.p95 || r.archiveGbPerHour.max\<close>: zero is the falsy number.\<close>

definition peakGbPerHour :: "DiagReport \<Rightarrow> real" where
  "peakGbPerHour r =
     (if p95 (archiveGbPerHour r) \<noteq> 0 then p95 (archiveGbPerHour r)
      else max_v (archiveGbPerHour r))"

definition redoLogSizeGb_of :: "DiagReport \<Rightarrow> redo_row list \<Rightarrow> real" where
  "redoLogSizeGb_of r cfg =
     (if p95 (switchesPerHour r) > 6
      then real_of_int (max (Math_ceil (peakGbPerHour r / targetSwitches)) 2)
      else currentRedoSizeGb cfg)"

definition redoLogGroups_of :: "redo_row list \<Rightarrow> nat" where
  "redoLogGroups_of cfg = max (currentGroups cfg) 4"

text \<open>Archive retention.\<close>

definition archiveWriteTimeMin :: "DiagReport \<Rightarrow> real" where
  "archiveWriteTimeMin r = (avgArchiveFileSizeGb r / 0.5) * 1"

definition logMinerSessionOverheadMin :: real where
  "logMinerSessionOverheadMin = 15"

definition safetyBufferMin :: real where
  "safetyBufferMin = 60"

definition switchIntervalMinP95 :: "DiagReport \<Rightarrow> real" where
  "switchIntervalMinP95 r =
     (if p95 (switchesPerHour r) > 0 then 60 / p95 (switchesPerHour r) else 30)"

definition minRetentionMin :: "DiagReport \<Rightarrow> real" where
  "minRetentionMin r =
     max (max (p95 (oldestTxnMinutes r) + safetyBufferMin)
              (switchIntervalMinP95 r * 3 + archiveWriteTimeMin r
                 + logMinerSessionOverheadMin + safetyBufferMin))
         120"

definition archiveRetentionHours_of :: "DiagReport \<Rightarrow> int" where
  "archiveRetentionHours_of r = Math_ceil (minRetentionMin r / 60)"

text \<open>
  \<^verbatim>\<open>r.archiveGbPerHour.p95 * archiveRetentionHours\<close>, a product of two doubles: the
  hours are an integer and a double as they are.
\<close>

definition retentionDiskGb :: "DiagReport \<Rightarrow> real" where
  "retentionDiskGb r =
     toDouble (toDouble (p95 (archiveGbPerHour r)) * real_of_int (archiveRetentionHours_of r))"

text \<open>LOB. The flag is assigned \<^verbatim>\<open>false\<close> on both paths.\<close>

definition lobEnabled_of :: "DiagReport \<Rightarrow> bool" where
  "lobEnabled_of r = (if hasLobs r then False else False)"

definition lobReason_of :: "DiagReport \<Rightarrow> template" where
  "lobReason_of r =
     (case lobColumns r of
        None \<Rightarrow> noLobReason
      | Some cols \<Rightarrow>
          if hasLobs r then lobReasonText (length cols) (archiveRetentionHours_of r)
          else noLobReason)"

text \<open>Transaction retention, heartbeat, batch sizing, query filter mode, retries.\<close>

text \<open>
  \<^verbatim>\<open>r.oldestTxnMinutes.p95 * 2 * 60 * 1000\<close> multiplies from the left, and every
  product is rounded to a double.
\<close>

definition txnRetentionMs :: "DiagReport \<Rightarrow> real" where
  "txnRetentionMs r =
     max (toDouble (toDouble (toDouble (toDouble (p95 (oldestTxnMinutes r)) * 2) * 60) * 1000))
         300000"

definition heartbeatIntervalMs_of :: "DiagReport \<Rightarrow> nat" where
  "heartbeatIntervalMs_of r = (if archiveRetentionHours_of r \<le> 2 then 10000 else 30000)"

definition captureRatio :: "DiagReport \<Rightarrow> real" where
  "captureRatio r =
     (if schemaTableCount r > 0
      then real (capturedTableCount r) / real (schemaTableCount r) else 1)"

definition batchSizeDefault_of :: "DiagReport \<Rightarrow> nat" where
  "batchSizeDefault_of r = (if captureRatio r < 0.3 then 5000 else 10000)"

definition batchSizeMax_of :: "DiagReport \<Rightarrow> nat" where
  "batchSizeMax_of r = (if captureRatio r < 0.3 then 10000 else 50000)"

definition queryFilterMode_of :: "DiagReport \<Rightarrow> string" where
  "queryFilterMode_of r = (if captureRatio r < 0.5 then ''regex'' else ''none'')"

definition maxRetries_of :: "DiagReport \<Rightarrow> nat" where
  "maxRetries_of r = (if avgArchiveFileSizeGb r > 5 then 30 else 10)"

text \<open>
  The warnings, one definition for each \<^verbatim>\<open>if\<close> that pushes: the list that the
  statement appends to \<^verbatim>\<open>warnings\<close>.
\<close>

definition pushLob :: "DiagReport \<Rightarrow> template list" where
  "pushLob r =
     (case lobColumns r of
        None \<Rightarrow> []
      | Some cols \<Rightarrow> if hasLobs r then [lobWarning cols (maxStringSize r)] else [])"

definition pushQueryFilter :: "DiagReport \<Rightarrow> template list" where
  "pushQueryFilter r =
     (if queryFilterMode_of r = ''regex'' then [queryFilterWarning (captureRatio r)] else [])"

definition pushArchiveLag :: "DiagReport \<Rightarrow> template list" where
  "pushArchiveLag r =
     (if archiveLagTarget r = 0 \<and> min_v (switchesPerHour r) < 2
      then [archiveLagWarning (min_v (switchesPerHour r))] else [])"

text \<open>
  \<^verbatim>\<open>suppLog && Array.isArray(suppLog) && suppLog.length > 0\<close> holds of the non-empty
  arrays only; then \<^verbatim>\<open>suppLog[0]?.SUPPLEMENTAL_LOG_DATA_MIN !== "YES"\<close> decides.
\<close>

definition pushSuppLog :: "DiagReport \<Rightarrow> template list" where
  "pushSuppLog r =
     (case supplementalLogging r of
        JArr (first # rest) \<Rightarrow>
          (if optProp first ''SUPPLEMENTAL_LOG_DATA_MIN'' \<noteq> Some (JStr ''YES'')
           then [suppLogWarning] else [])
      | _ \<Rightarrow> [])"

definition pushRetentionRisk :: "DiagReport \<Rightarrow> template list" where
  "pushRetentionRisk r =
     (if samples (archiveWindowHours r) > 0
         \<and> min_v (archiveWindowHours r) < real_of_int (archiveRetentionHours_of r)
      then [retentionRiskWarning (min_v (archiveWindowHours r)) (archiveRetentionHours_of r)]
      else [])"

text \<open>
  The function. Its only operation that can fail is the read of
  \<^verbatim>\<open>r.redoLogConfig.length\<close>, a TypeError on \<^verbatim>\<open>null\<close>; \<^verbatim>\<open>hasLobs\<close>, computed
  before it, cannot fail.
\<close>

definition computeRecommendations :: "DiagReport \<Rightarrow> js_error + Recommendations" where
  "computeRecommendations r =
     (case redoLogConfig r of
        None \<Rightarrow> Inl TypeError
      | Some cfg \<Rightarrow>
          Inr \<lparr> redoLogSizeGb = real_of_int (Math_round (redoLogSizeGb_of r cfg * 10)) / 10,
                redoLogGroups = redoLogGroups_of cfg,
                archiveRetentionHours = archiveRetentionHours_of r,
                archiveRetentionDiskGb = Math_round (retentionDiskGb r),
                lobEnabled = lobEnabled_of r,
                lobReason = lobReason_of r,
                transactionRetentionMs = txnRetentionMs r,
                heartbeatIntervalMs = heartbeatIntervalMs_of r,
                batchSizeDefault = batchSizeDefault_of r,
                batchSizeMax = batchSizeMax_of r,
                maxRetries = maxRetries_of r,
                queryFilterMode = queryFilterMode_of r,
                archiveLogOnlyMode = False,
                warnings = pushLob r @ pushQueryFilter r @ pushArchiveLag r
                             @ pushSuppLog r @ pushRetentionRisk r \<rparr>)"

subsection \<open>Recognising a warning\<close>

text \<open>
  A warning of the list is recognised by the literal text it opens with; the
  supplemental-logging warning has no interpolation and is recognised as a whole.
\<close>

definition isLobWarning :: "template \<Rightarrow> bool" where
  "isLobWarning w = (case w of Lit s # _ \<Rightarrow> s = ''LOB columns detected: '' | _ \<Rightarrow> False)"

definition isQueryFilterWarning :: "template \<Rightarrow> bool" where
  "isQueryFilterWarning w =
     (case w of Lit s # _ \<Rightarrow> s = ''Captured tables are '' | _ \<Rightarrow> False)"

definition isSuppLogWarning :: "template \<Rightarrow> bool" where
  "isSuppLogWarning w = (w = suppLogWarning)"

definition isRetentionRiskWarning :: "template \<Rightarrow> bool" where
  "isRetentionRiskWarning w =
     (case w of
        Lit s # _ \<Rightarrow> s = ''ORA-00308 RISK: observed minimum archive window is ''
      | _ \<Rightarrow> False)"

subsection \<open>The specification's formulas\<close>

text \<open>
  Three quantities as the specification words them, to be compared with what the
  function returns: the retention hours with a switch interval of \<open>60 / p95\<close> for every
  nonzero p95, the redo log size with the configured size passed through unchanged, and
  the capture ratio with its default at a schema of no tables.
\<close>

definition spec_archiveRetentionHours :: "DiagReport \<Rightarrow> int" where
  "spec_archiveRetentionHours r =
     \<lceil>max (max (p95 (oldestTxnMinutes r) + 60)
              (3 * (if p95 (switchesPerHour r) \<noteq> 0 then 60 / p95 (switchesPerHour r) else 30)
                 + avgArchiveFileSizeGb r / 0.5 + 15 + 60))
         120 / 60\<rceil>"

definition spec_redoLogSizeGb :: "DiagReport \<Rightarrow> redo_row list \<Rightarrow> real" where
  "spec_redoLogSizeGb r cfg =
     (if p95 (switchesPerHour r) \<le> 6
      then (case cfg of [] \<Rightarrow> 4 | row # rest \<Rightarrow> BYTES row / 1024 ^ 3)
      else real_of_int
             (max \<lceil>(if p95 (archiveGbPerHour r) = 0 then max_v (archiveGbPerHour r)
                     else p95 (archiveGbPerHour r)) / 4\<rceil> 2))"

definition spec_captureRatio :: "DiagReport \<Rightarrow> real" where
  "spec_captureRatio r =
     (if schemaTableCount r = 0 then 1
      else real (capturedTableCount r) / real (schemaTableCount r))"

subsection \<open>Snapshots\<close>

text \<open>
  A loaded database: eight switches an hour at peak, two redo groups of 4 GB, one LOB
  column, a quarter of the schema captured, minimal supplemental logging off, an archive
  window that went down to three hours.
\<close>

definition busy_redo :: "redo_row list" where
  "busy_redo =
     [\<lparr> GROUP_NUM = 1, BYTES = 4294967296, MEMBERS = 1, STATUS = ''CURRENT'' \<rparr>,
      \<lparr> GROUP_NUM = 2, BYTES = 4294967296, MEMBERS = 1, STATUS = ''INACTIVE'' \<rparr>]"

definition busy_lobs :: "lob_row list" where
  "busy_lobs = [\<lparr> TABLE_NAME = ''ORDERS'', COLUMN_NAME = ''PAYLOAD'', DATA_TYPE = ''CLOB'' \<rparr>]"

definition busy_snapshot :: DiagReport where
  "busy_snapshot =
     \<lparr> switchesPerHour = \<lparr> min_v = 1, max_v = 9, avg = 4, p95 = 8, samples = 96 \<rparr>,
       archiveGbPerHour = \<lparr> min_v = 1 / 2, max_v = 20, avg = 6, p95 = 16, samples = 96 \<rparr>,
       avgArchiveFileSizeGb = 2,
       oldestTxnMinutes = \<lparr> min_v = 0, max_v = 300, avg = 30, p95 = 240, samples = 96 \<rparr>,
       activeTxnCount = \<lparr> min_v = 0, max_v = 12, avg = 3, p95 = 10, samples = 96 \<rparr>,
       archiveWindowHours = \<lparr> min_v = 3, max_v = 12, avg = 8, p95 = 11, samples = 96 \<rparr>,
       archiveDiskUsedGb = \<lparr> min_v = 10, max_v = 90, avg = 50, p95 = 85, samples = 96 \<rparr>,
       samplingDurationHours = 24,
       redoLogConfig = Some busy_redo,
       lobColumns = Some busy_lobs,
       capturedTableCount = 25,
       schemaTableCount = 100,
       supplementalLogging = JArr [JObj [(''SUPPLEMENTAL_LOG_DATA_MIN'', JStr ''NO'')]],
       archiveLagTarget = 0,
       maxStringSize = ''STANDARD'',
       captureSchema = ''APP'',
       captureTablePattern = ''.*'' \<rparr>"

definition busy_recommendations :: Recommendations where
  "busy_recommendations =
     \<lparr> redoLogSizeGb = 4,
       redoLogGroups = 4,
       archiveRetentionHours = 5,
       archiveRetentionDiskGb = 80,
       lobEnabled = False,
       lobReason = lobReasonText 1 5,
       transactionRetentionMs = 28800000,
       heartbeatIntervalMs = 30000,
       batchSizeDefault = 5000,
       batchSizeMax = 10000,
       maxRetries = 10,
       queryFilterMode = ''regex'',
       archiveLogOnlyMode = False,
       warnings = [lobWarning busy_lobs ''STANDARD'',
                   queryFilterWarning (1 / 4),
                   archiveLagWarning 1,
                   suppLogWarning,
                   retentionRiskWarning 3 5] \<rparr>"





text \<open>
  The same database with transactions of up to 800 minutes at p95, hence 15 hours of
  retention, and 4.1 GB of archive an hour at p95.
\<close>

definition disk41_snapshot :: DiagReport where
  "disk41_snapshot =
     busy_snapshot
       \<lparr> archiveGbPerHour :=
           \<lparr> min_v = 1 / 2, max_v = 5, avg = 2, p95 = 41 / 10, samples = 96 \<rparr>,
         oldestTxnMinutes :=
           \<lparr> min_v = 0, max_v = 900, avg = 100, p95 = 800, samples = 96 \<rparr> \<rparr>"

definition disk41_recommendations :: Recommendations where
  "disk41_recommendations =
     busy_recommendations
       \<lparr> redoLogSizeGb := 2,
         archiveRetentionHours := 15,
         archiveRetentionDiskGb := 61,
         lobReason := lobReasonText 1 15,
         transactionRetentionMs := 96000000,
         warnings := [lobWarning busy_lobs ''STANDARD'',
                      queryFilterWarning (1 / 4),
                      archiveLagWarning 1,
                      suppLogWarning,
                      retentionRiskWarning 3 15] \<rparr>"

text \<open>
  An idle database with the three redo groups of 200 MB of a default installation,
  every table captured and no LOB column.
\<close>

definition idle_redo :: "redo_row list" where
  "idle_redo =
     [\<lparr> GROUP_NUM = 1, BYTES = 209715200, MEMBERS = 1, STATUS = ''INACTIVE'' \<rparr>,
      \<lparr> GROUP_NUM = 2, BYTES = 209715200, MEMBERS = 1, STATUS = ''CURRENT'' \<rparr>,
      \<lparr> GROUP_NUM = 3, BYTES = 209715200, MEMBERS = 1, STATUS = ''INACTIVE'' \<rparr>]"

definition idle_snapshot :: DiagReport where
  "idle_snapshot =
     \<lparr> switchesPerHour = \<lparr> min_v = 0, max_v = 0, avg = 0, p95 = 0, samples = 96 \<rparr>,
       archiveGbPerHour =
         \<lparr> min_v = 0, max_v = 1 / 2, avg = 1 / 10, p95 = 3 / 10, samples = 96 \<rparr>,
       avgArchiveFileSizeGb = 0,
       oldestTxnMinutes = \<lparr> min_v = 0, max_v = 0, avg = 0, p95 = 0, samples = 96 \<rparr>,
       activeTxnCount = \<lparr> min_v = 0, max_v = 0, avg = 0, p95 = 0, samples = 96 \<rparr>,
       archiveWindowHours = \<lparr> min_v = 24, max_v = 48, avg = 36, p95 = 47, samples = 96 \<rparr>,
       archiveDiskUsedGb = \<lparr> min_v = 1, max_v = 2, avg = 1, p95 = 2, samples = 96 \<rparr>,
       samplingDurationHours = 24,
       redoLogConfig = Some idle_redo,
       lobColumns = Some [],
       capturedTableCount = 10,
       schemaTableCount = 10,
       supplementalLogging =
         JArr [JObj [(''SUPPLEMENTAL_LOG_DATA_MIN'', JStr ''YES''),
                     (''SUPPLEMENTAL_LOG_DATA_PK'', JStr ''NO''),
                     (''SUPPLEMENTAL_LOG_DATA_ALL'', JStr ''NO'')]],
       archiveLagTarget = 1800,
       maxStringSize = ''STANDARD'',
       captureSchema = ''APP'',
       captureTablePattern = ''.*'' \<rparr>"

definition idle_recommendations :: Recommendations where
  "idle_recommendations =
     \<lparr> redoLogSizeGb = 2 / 10,
       redoLogGroups = 4,
       archiveRetentionHours = 3,
       archiveRetentionDiskGb = 1,
       lobEnabled = False,
       lobReason = noLobReason,
       transactionRetentionMs = 300000,
       heartbeatIntervalMs = 30000,
       batchSizeDefault = 10000,
       batchSizeMax = 50000,
       maxRetries = 10,
       queryFilterMode = ''none'',
       archiveLogOnlyMode = False,
       warnings = [] \<rparr>"

text \<open>
  A database with a switch now and then, reported with \<^verbatim>\<open>SAMPLE_INTERVAL_MINUTES\<close> set
  to \<open>-15\<close>: \<^verbatim>\<open>report\<close> multiplies the aggregates of the switch counts by
  \<^verbatim>\<open>60 / intervalMin\<close>, here \<open>-4\<close>, and the switch rates come out below zero.
\<close>

definition negative_rate_snapshot :: DiagReport where
  "negative_rate_snapshot =
     idle_snapshot \<lparr> switchesPerHour :=
       \<lparr> min_v = 0, max_v = - 4, avg = - 1, p95 = - 1, samples = 96 \<rparr> \<rparr>"

text \<open>
  The idle database whose supplemental-logging fact did not parse as JSON, so that
  \<^verbatim>\<open>getStatic\<close> hands on the stored text.
\<close>

definition raw_suppLog_snapshot :: DiagReport where
  "raw_suppLog_snapshot = idle_snapshot \<lparr> supplementalLogging := JStr ''NO'' \<rparr>"

text \<open>
  The idle database read from a static table without rows: \<^verbatim>\<open>getStatic\<close> returns
  \<^verbatim>\<open>null\<close> for every fact, and \<^verbatim>\<open>report\<close> fills in its defaults for the others.
\<close>

definition no_static_snapshot :: DiagReport where
  "no_static_snapshot =
     idle_snapshot \<lparr> redoLogConfig := None, lobColumns := None,
       capturedTableCount := 0, schemaTableCount := 0, supplementalLogging := JNull,
       archiveLagTarget := 0, captureSchema := ''UNKNOWN'',
       captureTablePattern := ''UNKNOWN'' \<rparr>"

section \<open>Properties\<close>

subsection \<open>Rounding to doubles\<close>

lemma pow2_powr: "pow2 k = 2 powr real_of_int k"
proof (cases "k \<ge> 0")
  case True
  have "(2::real) powr real (nat k) = 2 ^ nat k"
    by (rule powr_realpow) simp
  moreover from True have "real (nat k) = real_of_int k"
    by simp
  ultimately show ?thesis
    using True by (simp add: pow2_def)
next
  case False
  have "(2::real) powr real (nat (- k)) = 2 ^ nat (- k)"
    by (rule powr_realpow) simp
  moreover from False have "real (nat (- k)) = - real_of_int k"
    by simp
  ultimately have "(2::real) powr (- real_of_int k) = 2 ^ nat (- k)"
    by simp
  then have "1 / (2::real) powr real_of_int k = 2 ^ nat (- k)"
    by (simp add: powr_minus_divide)
  then have "(2::real) powr real_of_int k = 1 / 2 ^ nat (- k)"
    by (metis div_by_1 divide_divide_eq_right mult.left_neutral)
  then show ?thesis
    using False by (simp add: pow2_def)
qed

lemma pow2_pos: "0 < pow2 k"
  by (simp add: pow2_powr)

lemma binade: "pow2 e \<le> \<bar>x\<bar> \<Longrightarrow> \<bar>x\<bar> < pow2 (e + 1) \<Longrightarrow> \<lfloor>log 2 \<bar>x\<bar>\<rfloor> = e"
proof -
  assume lo: "pow2 e \<le> \<bar>x\<bar>" and hi: "\<bar>x\<bar> < pow2 (e + 1)"
  from lo pow2_pos [of e] have pos: "0 < \<bar>x\<bar>" by linarith
  from lo hi have "2 powr real_of_int e \<le> \<bar>x\<bar> \<and> \<bar>x\<bar> < 2 powr real_of_int (e + 1)"
    by (simp add: pow2_powr)
  with pos show ?thesis
    by (simp add: floor_log_eq_powr_iff)
qed

lemma toDouble_eval:
  assumes "pow2 e \<le> \<bar>x\<bar>" and "\<bar>x\<bar> < pow2 (e + 1)"
  shows "toDouble x = real_of_int (roundToEven (x / pow2 (e - 52))) * pow2 (e - 52)"
proof -
  from assms(1) pow2_pos [of e] have "x \<noteq> 0" by auto
  then show ?thesis
    by (simp add: toDouble_def binade [OF assms])
qed

lemma roundToEven_of_int: "roundToEven (real_of_int k) = k"
  by (simp add: roundToEven_def)

lemma toDouble_zero: "toDouble 0 = 0"
  by (simp add: toDouble_def)

lemma toDouble_of_int:
  assumes "\<bar>n\<bar> < 2 ^ 53"
  shows "toDouble (real_of_int n) = real_of_int n"
proof (cases "n = 0")
  case True
  then show ?thesis by (simp add: toDouble_def)
next
  case False
  define e where "e = \<lfloor>log 2 \<bar>real_of_int n\<bar>\<rfloor>"
  have one: "1 \<le> \<bar>real_of_int n\<bar>" using False by (simp flip: of_int_abs)
  then have "0 \<le> log 2 \<bar>real_of_int n\<bar>" by simp
  then have e0: "0 \<le> e" by (simp add: e_def)
  have "\<bar>real_of_int n\<bar> < 2 ^ 53"
    using assms by (metis of_int_abs of_int_less_numeral_power_cancel_iff)
  then have "\<bar>real_of_int n\<bar> < 2 powr 53" by simp
  then have "log 2 \<bar>real_of_int n\<bar> < 53"
    using one by (simp add: log_less_iff)
  then have e52: "e \<le> 52" by (simp add: e_def floor_less_iff)
  define j where "j = nat (52 - e)"
  have p: "pow2 (e - 52) = 1 / 2 ^ j"
  proof (cases "e = 52")
    case True then show ?thesis by (simp add: pow2_def j_def)
  next
    case False
    with e52 have "e - 52 < 0" by simp
    then show ?thesis by (simp add: pow2_def j_def)
  qed
  have "real_of_int n / pow2 (e - 52) = real_of_int (n * 2 ^ j)"
    by (simp add: p)
  then have "roundToEven (real_of_int n / pow2 (e - 52)) = n * 2 ^ j"
    by (simp only: roundToEven_of_int)
  then have "toDouble (real_of_int n) = real_of_int (n * 2 ^ j) * (1 / 2 ^ j)"
    using False by (simp add: toDouble_def e_def [symmetric] p)
  then show ?thesis by simp
qed

lemma toDouble_numeral:
  "(numeral k :: int) < 2 ^ 53 \<Longrightarrow> toDouble (numeral k) = numeral k"
  using toDouble_of_int [of "numeral k"] by simp





lemma double_41: "toDouble (41 / 10) = 2308094809027379 / 2 ^ 49"
  by (subst toDouble_eval [of 2]) (simp_all add: pow2_def roundToEven_def)

lemma double_41_times_15:
  "toDouble (2308094809027379 / 2 ^ 49 * 15) = 8655355533852671 / 2 ^ 47"
  by (subst toDouble_eval [of 5]) (simp_all add: pow2_def roundToEven_def)

lemma double_03: "toDouble (3 / 10) = 5404319552844595 / 2 ^ 54"
  by (subst toDouble_eval [of "- 2"]) (simp_all add: pow2_def roundToEven_def)

lemma double_03_times_3:
  "toDouble (5404319552844595 / 2 ^ 54 * 3) = 2026619832316723 / 2 ^ 51"
  by (subst toDouble_eval [of "- 1"]) (simp_all add: pow2_def roundToEven_def)



lemma retentionDiskGb_41:
  assumes "p95 (archiveGbPerHour r) = 41 / 10" and "archiveRetentionHours_of r = 15"
  shows "retentionDiskGb r = 8655355533852671 / 2 ^ 47"
proof -
  have "retentionDiskGb r = toDouble (toDouble (41 / 10) * 15)"
    by (simp only: retentionDiskGb_def assms of_int_numeral)
  also have "\<dots> = 8655355533852671 / 2 ^ 47"
    by (simp only: double_41 double_41_times_15)
  finally show ?thesis .
qed

lemma retentionDiskGb_03:
  assumes "p95 (archiveGbPerHour r) = 3 / 10" and "archiveRetentionHours_of r = 3"
  shows "retentionDiskGb r = 2026619832316723 / 2 ^ 51"
proof -
  have "retentionDiskGb r = toDouble (toDouble (3 / 10) * 3)"
    by (simp only: retentionDiskGb_def assms of_int_numeral)
  also have "\<dots> = 2026619832316723 / 2 ^ 51"
    by (simp only: double_03 double_03_times_3)
  finally show ?thesis .
qed

subsection \<open>Unfolding and evaluation\<close>

lemmas exact_locals =
  hasLobs_def currentRedoSizeGb_def currentGroups_def targetSwitches_def peakGbPerHour_def
  redoLogSizeGb_of_def redoLogGroups_of_def archiveWriteTimeMin_def
  logMinerSessionOverheadMin_def safetyBufferMin_def switchIntervalMinP95_def
  minRetentionMin_def archiveRetentionHours_of_def lobEnabled_of_def
  lobReason_of_def heartbeatIntervalMs_of_def captureRatio_def
  batchSizeDefault_of_def batchSizeMax_of_def queryFilterMode_of_def maxRetries_of_def
  pushLob_def pushQueryFilter_def pushArchiveLag_def pushSuppLog_def pushRetentionRisk_def
  Math_ceil_def Math_round_def

lemmas locals =
  exact_locals retentionDiskGb_def txnRetentionMs_def toDouble_zero toDouble_numeral

lemmas texts =
  lobWarning_def queryFilterWarning_def archiveLagWarning_def suppLogWarning_def
  retentionRiskWarning_def

lemma busy_run: "computeRecommendations busy_snapshot = Inr busy_recommendations"
  by (simp add: computeRecommendations_def busy_snapshot_def busy_recommendations_def
      busy_redo_def busy_lobs_def locals)



lemma disk41_run: "computeRecommendations disk41_snapshot = Inr disk41_recommendations"
proof -
  have disk: "retentionDiskGb disk41_snapshot = 8655355533852671 / 2 ^ 47"
    by (rule retentionDiskGb_41)
       (simp_all add: disk41_snapshot_def busy_snapshot_def exact_locals)
  show ?thesis
    unfolding computeRecommendations_def disk
    by (simp add: computeRecommendations_def disk41_snapshot_def disk41_recommendations_def
        busy_snapshot_def busy_recommendations_def busy_redo_def busy_lobs_def exact_locals
        txnRetentionMs_def toDouble_numeral)
qed

lemma idle_run: "computeRecommendations idle_snapshot = Inr idle_recommendations"
proof -
  have disk: "retentionDiskGb idle_snapshot = 2026619832316723 / 2 ^ 51"
    by (rule retentionDiskGb_03) (simp_all add: idle_snapshot_def exact_locals)
  show ?thesis
    unfolding computeRecommendations_def disk
    by (simp add: computeRecommendations_def idle_snapshot_def idle_recommendations_def
        idle_redo_def exact_locals txnRetentionMs_def toDouble_zero)
qed

lemma negative_rate_run:
  "computeRecommendations negative_rate_snapshot = Inr idle_recommendations"
proof -
  have disk: "retentionDiskGb negative_rate_snapshot = 2026619832316723 / 2 ^ 51"
    by (rule retentionDiskGb_03)
       (simp_all add: negative_rate_snapshot_def idle_snapshot_def exact_locals)
  show ?thesis
    unfolding computeRecommendations_def disk
    by (simp add: computeRecommendations_def negative_rate_snapshot_def idle_snapshot_def
        idle_recommendations_def idle_redo_def exact_locals txnRetentionMs_def toDouble_zero)
qed

lemma raw_suppLog_run:
  "computeRecommendations raw_suppLog_snapshot = Inr idle_recommendations"
proof -
  have disk: "retentionDiskGb raw_suppLog_snapshot = 2026619832316723 / 2 ^ 51"
    by (rule retentionDiskGb_03)
       (simp_all add: raw_suppLog_snapshot_def idle_snapshot_def exact_locals)
  show ?thesis
    unfolding computeRecommendations_def disk
    by (simp add: computeRecommendations_def raw_suppLog_snapshot_def idle_snapshot_def
        idle_recommendations_def idle_redo_def exact_locals txnRetentionMs_def toDouble_zero)
qed

subsection \<open>When the function returns\<close>

lemma computeRecommendations_null_redo:
  "redoLogConfig r = None \<Longrightarrow> computeRecommendations r = Inl TypeError"
  by (simp add: computeRecommendations_def)

lemma computeRecommendations_returns_iff:
  "(\<exists>rec. computeRecommendations r = Inr rec) \<longleftrightarrow> redoLogConfig r \<noteq> None"
  by (cases "redoLogConfig r") (simp_all add: computeRecommendations_def)

text \<open>The fields of a returned value, in terms of the locals.\<close>

lemma returned_fields:
  assumes "computeRecommendations r = Inr rec"
  shows "archiveRetentionHours rec = archiveRetentionHours_of r"
    and "archiveRetentionDiskGb rec = Math_round (retentionDiskGb r)"
    and "lobEnabled rec = lobEnabled_of r"
    and "lobReason rec = lobReason_of r"
    and "transactionRetentionMs rec = txnRetentionMs r"
    and "batchSizeDefault rec = batchSizeDefault_of r"
    and "batchSizeMax rec = batchSizeMax_of r"
    and "queryFilterMode rec = queryFilterMode_of r"
    and "warnings rec = pushLob r @ pushQueryFilter r @ pushArchiveLag r
                          @ pushSuppLog r @ pushRetentionRisk r"
  using assms by (cases "redoLogConfig r"; auto simp add: computeRecommendations_def)+

lemma returned_redo_fields:
  assumes "computeRecommendations r = Inr rec" and "redoLogConfig r = Some cfg"
  shows "redoLogSizeGb rec = real_of_int (Math_round (redoLogSizeGb_of r cfg * 10)) / 10"
    and "redoLogGroups rec = redoLogGroups_of cfg"
  using assms by (auto simp add: computeRecommendations_def)

subsection \<open>Which statement pushes which warning\<close>

lemma in_pushLob: "(\<exists>w \<in> set (pushLob r). isLobWarning w) \<longleftrightarrow> hasLobs r"
  by (auto simp add: pushLob_def hasLobs_def isLobWarning_def lobWarning_def
      split: option.splits)

lemma in_pushQueryFilter:
  "(\<exists>w \<in> set (pushQueryFilter r). isQueryFilterWarning w)
     \<longleftrightarrow> queryFilterMode_of r = ''regex''"
  by (simp add: pushQueryFilter_def isQueryFilterWarning_def queryFilterWarning_def)

lemma in_pushSuppLog:
  "(\<exists>w \<in> set (pushSuppLog r). isSuppLogWarning w) \<longleftrightarrow>
     (\<exists>first rest. supplementalLogging r = JArr (first # rest)
        \<and> optProp first ''SUPPLEMENTAL_LOG_DATA_MIN'' \<noteq> Some (JStr ''YES''))"
proof (cases "supplementalLogging r")
  case (JArr xs)
  then show ?thesis
    by (cases xs) (simp_all add: pushSuppLog_def isSuppLogWarning_def)
qed (simp_all add: pushSuppLog_def)

lemma in_pushRetentionRisk:
  "(\<exists>w \<in> set (pushRetentionRisk r). isRetentionRiskWarning w) \<longleftrightarrow>
     samples (archiveWindowHours r) > 0
       \<and> min_v (archiveWindowHours r) < real_of_int (archiveRetentionHours_of r)"
  by (simp add: pushRetentionRisk_def isRetentionRiskWarning_def retentionRiskWarning_def)

lemma others_not_lob:
  "\<forall>w \<in> set (pushQueryFilter r @ pushArchiveLag r @ pushSuppLog r @ pushRetentionRisk r).
     \<not> isLobWarning w"
  by (auto simp add: pushQueryFilter_def pushArchiveLag_def pushSuppLog_def
      pushRetentionRisk_def isLobWarning_def texts split: jsval.splits list.splits if_splits)

lemma others_not_queryFilter:
  "\<forall>w \<in> set (pushLob r @ pushArchiveLag r @ pushSuppLog r @ pushRetentionRisk r).
     \<not> isQueryFilterWarning w"
  by (auto simp add: pushLob_def pushArchiveLag_def pushSuppLog_def
      pushRetentionRisk_def isQueryFilterWarning_def texts
      split: jsval.splits list.splits if_splits option.splits)

lemma others_not_suppLog:
  "\<forall>w \<in> set (pushLob r @ pushQueryFilter r @ pushArchiveLag r @ pushRetentionRisk r).
     \<not> isSuppLogWarning w"
  by (auto simp add: pushLob_def pushArchiveLag_def pushQueryFilter_def
      pushRetentionRisk_def isSuppLogWarning_def texts
      split: if_splits option.splits)

lemma others_not_retentionRisk:
  "\<forall>w \<in> set (pushLob r @ pushQueryFilter r @ pushArchiveLag r @ pushSuppLog r).
     \<not> isRetentionRiskWarning w"
  by (auto simp add: pushLob_def pushArchiveLag_def pushQueryFilter_def
      pushSuppLog_def isRetentionRiskWarning_def texts
      split: jsval.splits list.splits if_splits option.splits)

subsection \<open>Arithmetic of the roundings\<close>

lemma hours_ge_2: "2 \<le> archiveRetentionHours_of r"
proof -
  have "120 \<le> minRetentionMin r"
    by (simp add: minRetentionMin_def)
  then have "1 < minRetentionMin r / 60"
    by simp
  then show ?thesis
    by (simp add: archiveRetentionHours_of_def Math_ceil_def le_ceiling_iff)
qed

lemma round_tenths_of_int: "real_of_int (Math_round (real_of_int n * 10)) / 10 = real_of_int n"
proof -
  have "\<lfloor>real_of_int (n * 10) + 1 / 2\<rfloor> = n * 10"
    by (rule floor_unique) simp_all
  then show ?thesis
    by (simp add: Math_round_def)
qed

lemma currentRedoSizeGb_cases:
  "currentRedoSizeGb cfg = (case cfg of [] \<Rightarrow> 4 | row # rest \<Rightarrow> BYTES row / 1024 ^ 3)"
  by (cases cfg) (simp_all add: currentRedoSizeGb_def)

lemma redoLogSizeGb_of_spec: "redoLogSizeGb_of r cfg = spec_redoLogSizeGb r cfg"
  by (simp add: redoLogSizeGb_of_def spec_redoLogSizeGb_def currentRedoSizeGb_cases
      peakGbPerHour_def targetSwitches_def Math_ceil_def)

lemma captureRatio_spec: "captureRatio r = spec_captureRatio r"
  by (simp add: captureRatio_def spec_captureRatio_def)

section \<open>The claims\<close>

subsection \<open>C1: archive retention hours\<close>

text \<open>
  Against claim C1 as worded: with a switch-rate p95 of \<open>-1\<close> the function takes the
  default interval of 30 minutes and returns 3 hours, where \<open>60 / p95\<close> for every
  nonzero p95 gives 2 hours.
\<close>

theorem archiveRetentionHours_negative_rate_counterexample:
  "computeRecommendations negative_rate_snapshot = Inr idle_recommendations
   \<and> p95 (switchesPerHour negative_rate_snapshot) = - 1
   \<and> archiveRetentionHours idle_recommendations = 3
   \<and> spec_archiveRetentionHours negative_rate_snapshot = 2"
proof -
  have "spec_archiveRetentionHours negative_rate_snapshot = 2"
    by (simp add: spec_archiveRetentionHours_def negative_rate_snapshot_def idle_snapshot_def)
  moreover have "p95 (switchesPerHour negative_rate_snapshot) = - 1"
    by (simp add: negative_rate_snapshot_def)
  moreover have "archiveRetentionHours idle_recommendations = 3"
    by (simp add: idle_recommendations_def)
  ultimately show ?thesis
    by (simp add: negative_rate_run)
qed

text \<open>
  Claim C1, amended: the returned \<open>archiveRetentionHours\<close> is the ceiling, in hours, of
  the maximum of three bounds in minutes: the oldest-transaction p95 plus 60; three
  switch intervals plus \<open>avgArchiveFileSizeGb / 0.5\<close> plus 15 plus 60, the switch
  interval being \<open>60 / p95\<close> of the switch rate when that p95 is positive and 30
  otherwise; and 120.
\<close>

theorem archiveRetentionHours_max_of_bounds:
  assumes "computeRecommendations r = Inr rec"
  shows "archiveRetentionHours rec =
     \<lceil>max (max (p95 (oldestTxnMinutes r) + 60)
              (3 * (if p95 (switchesPerHour r) > 0 then 60 / p95 (switchesPerHour r) else 30)
                 + avgArchiveFileSizeGb r / 0.5 + 15 + 60))
         120 / 60\<rceil>"
  using returned_fields(1) [OF assms]
  by (simp add: archiveRetentionHours_of_def Math_ceil_def minRetentionMin_def
      switchIntervalMinP95_def archiveWriteTimeMin_def logMinerSessionOverheadMin_def
      safetyBufferMin_def mult.commute)

theorem archiveRetentionHours_max_of_bounds_witness:
  "computeRecommendations busy_snapshot = Inr busy_recommendations
   \<and> archiveRetentionHours busy_recommendations
       = \<lceil>max (max (240 + 60) (3 * (60 / 8) + 2 / 0.5 + 15 + 60)) 120 / (60 :: real)\<rceil>
   \<and> archiveRetentionHours busy_recommendations = 5"
proof -
  have "archiveRetentionHours busy_recommendations
          = \<lceil>max (max (240 + 60) (3 * (60 / 8) + 2 / 0.5 + 15 + 60)) 120 / (60 :: real)\<rceil>"
    using archiveRetentionHours_max_of_bounds [OF busy_run] by (simp add: busy_snapshot_def)
  moreover have "archiveRetentionHours busy_recommendations = 5"
    by (simp add: busy_recommendations_def)
  ultimately show ?thesis
    by (simp add: busy_run)
qed

subsection \<open>C2: the two floors\<close>

text \<open>
  Claim C2: whatever the metrics and the static facts, a returned value has
  \<open>archiveRetentionHours \<ge> 2\<close> and \<open>transactionRetentionMs \<ge> 300000\<close>.
\<close>

theorem retention_floors:
  assumes "computeRecommendations r = Inr rec"
  shows "archiveRetentionHours rec \<ge> 2 \<and> transactionRetentionMs rec \<ge> 300000"
  using returned_fields(1,5) [OF assms] hours_ge_2 [of r]
  by (simp add: txnRetentionMs_def)

theorem retention_floors_witness:
  "computeRecommendations idle_snapshot = Inr idle_recommendations
   \<and> archiveRetentionHours idle_recommendations \<ge> 2
   \<and> transactionRetentionMs idle_recommendations \<ge> 300000"
  using retention_floors [OF idle_run] by (simp add: idle_run)

subsection \<open>C3: no failure on absent facts\<close>

text \<open>
  Claim C3 says that the function returns for every snapshot, absent static facts
  included. On the snapshot of a static table without rows the read of
  \<^verbatim>\<open>r.redoLogConfig.length\<close> throws.
\<close>

theorem absent_redo_config_throws:
  "computeRecommendations no_static_snapshot = Inl TypeError"
  by (simp add: computeRecommendations_def no_static_snapshot_def)

subsection \<open>C4: redo log sizing\<close>

text \<open>
  Against claim C4 as worded: the idle database switches less than six times an hour and
  its groups have 200 MB, that is \<open>25 / 128\<close> GB; the function returns \<open>0.2\<close>, not the
  configured size unchanged.
\<close>

theorem redoLogSize_unchanged_counterexample:
  "computeRecommendations idle_snapshot = Inr idle_recommendations
   \<and> redoLogConfig idle_snapshot = Some idle_redo
   \<and> p95 (switchesPerHour idle_snapshot) \<le> 6
   \<and> spec_redoLogSizeGb idle_snapshot idle_redo = 25 / 128
   \<and> redoLogSizeGb idle_recommendations = 1 / 5"
proof -
  have "spec_redoLogSizeGb idle_snapshot idle_redo = 25 / 128"
    by (simp add: spec_redoLogSizeGb_def idle_snapshot_def idle_redo_def)
  moreover have "redoLogSizeGb idle_recommendations = 1 / 5"
    by (simp add: idle_recommendations_def)
  moreover have "redoLogConfig idle_snapshot = Some idle_redo"
    and "p95 (switchesPerHour idle_snapshot) \<le> 6"
    by (simp_all add: idle_snapshot_def)
  ultimately show ?thesis
    by (simp add: idle_run)
qed

text \<open>
  Claim C4, amended: the returned \<open>redoLogSizeGb\<close> is the size of the claim rounded to
  one decimal place (\<^verbatim>\<open>Math.round(size * 10) / 10\<close>), the size of the claim being the
  configured size of the first group (4 GB without rows) at a switch-rate p95 of at most
  6 and otherwise \<open>ceil(peakArchiveGbPerHour / 4)\<close> with a floor of 2, which the rounding
  leaves as it is; and \<open>redoLogGroups = max(currentGroupCount, 4)\<close>.
\<close>

theorem redoLogSize_rounded_to_tenths:
  assumes "computeRecommendations r = Inr rec" and "redoLogConfig r = Some cfg"
  shows "redoLogSizeGb rec = real_of_int \<lfloor>spec_redoLogSizeGb r cfg * 10 + 1 / 2\<rfloor> / 10
         \<and> (p95 (switchesPerHour r) > 6 \<longrightarrow> redoLogSizeGb rec = spec_redoLogSizeGb r cfg)
         \<and> redoLogGroups rec = max (length cfg) 4"
proof -
  have groups: "redoLogGroups rec = max (length cfg) 4"
    using returned_redo_fields(2) [OF assms]
    by (simp add: redoLogGroups_of_def currentGroups_def)
  have field: "redoLogSizeGb rec = real_of_int (Math_round (spec_redoLogSizeGb r cfg * 10)) / 10"
    using returned_redo_fields(1) [OF assms] by (simp add: redoLogSizeGb_of_spec)
  have "redoLogSizeGb rec = spec_redoLogSizeGb r cfg" if "p95 (switchesPerHour r) > 6"
  proof -
    from that obtain n where "spec_redoLogSizeGb r cfg = real_of_int n"
      by (simp add: spec_redoLogSizeGb_def)
    with field show ?thesis
      by (simp only: round_tenths_of_int)
  qed
  with groups field show ?thesis
    by (simp add: Math_round_def)
qed

theorem redoLogSize_rounded_to_tenths_witness:
  "computeRecommendations busy_snapshot = Inr busy_recommendations
   \<and> redoLogConfig busy_snapshot = Some busy_redo
   \<and> p95 (switchesPerHour busy_snapshot) > 6
   \<and> redoLogSizeGb busy_recommendations = spec_redoLogSizeGb busy_snapshot busy_redo
   \<and> redoLogGroups busy_recommendations = max (length busy_redo) 4"
proof -
  have cfg: "redoLogConfig busy_snapshot = Some busy_redo"
    and rate: "p95 (switchesPerHour busy_snapshot) > 6"
    by (simp_all add: busy_snapshot_def)
  from redoLogSize_rounded_to_tenths [OF busy_run cfg] rate cfg show ?thesis
    by (simp add: busy_run)
qed

subsection \<open>C5: transaction retention\<close>




subsection \<open>C6: LOB capture\<close>

text \<open>
  Claim C6: \<open>lobEnabled\<close> is false whether or not LOB columns are present; the LOB warning
  is in the warnings exactly when at least one LOB column was found; when none was found
  the rationale is the text about no LOB columns.
\<close>

theorem lob_policy:
  assumes "computeRecommendations r = Inr rec"
  shows "\<not> lobEnabled rec
         \<and> ((\<exists>w \<in> set (warnings rec). isLobWarning w)
              \<longleftrightarrow> (\<exists>cols. lobColumns r = Some cols \<and> cols \<noteq> []))
         \<and> (\<not> (\<exists>cols. lobColumns r = Some cols \<and> cols \<noteq> [])
              \<longrightarrow> lobReason rec = [Lit ''No LOB columns in captured tables.''])"
proof -
  have found: "hasLobs r \<longleftrightarrow> (\<exists>cols. lobColumns r = Some cols \<and> cols \<noteq> [])"
    by (cases "lobColumns r") (simp_all add: hasLobs_def)
  have flag: "\<not> lobEnabled rec"
    using returned_fields(3) [OF assms] by (simp add: lobEnabled_of_def)
  have warn: "(\<exists>w \<in> set (warnings rec). isLobWarning w) \<longleftrightarrow> hasLobs r"
    using returned_fields(9) [OF assms] in_pushLob [of r] others_not_lob [of r] by auto
  have reason: "\<not> hasLobs r \<Longrightarrow> lobReason rec = [Lit ''No LOB columns in captured tables.'']"
    using returned_fields(4) [OF assms]
    by (cases "lobColumns r") (simp_all add: lobReason_of_def noLobReason_def)
  show ?thesis
    using flag warn reason found by simp
qed

theorem lob_policy_witness:
  "computeRecommendations busy_snapshot = Inr busy_recommendations
   \<and> lobColumns busy_snapshot = Some busy_lobs
   \<and> busy_lobs \<noteq> []
   \<and> \<not> lobEnabled busy_recommendations
   \<and> (\<exists>w \<in> set (warnings busy_recommendations). isLobWarning w)"
proof -
  have cols: "lobColumns busy_snapshot = Some busy_lobs" and ne: "busy_lobs \<noteq> []"
    by (simp_all add: busy_snapshot_def busy_lobs_def)
  then have "\<exists>cols. lobColumns busy_snapshot = Some cols \<and> cols \<noteq> []"
    by simp
  with lob_policy [OF busy_run] cols ne show ?thesis
    by (simp add: busy_run)
qed

subsection \<open>C7: batch sizes and query filter mode\<close>

text \<open>
  Claim C7: with the capture ratio \<open>capturedTableCount / schemaTableCount\<close>, taken as 1
  at a schema of no tables, a ratio below 0.3 gives the batch sizes 5000 and 10000 and
  any other ratio 10000 and 50000; the query filter mode is regex below 0.5 and none
  otherwise; the query-filter warning is in the warnings exactly when the mode is regex.
\<close>

theorem batch_and_filter_policy:
  assumes "computeRecommendations r = Inr rec"
  shows "(if spec_captureRatio r < 0.3
          then batchSizeDefault rec = 5000 \<and> batchSizeMax rec = 10000
          else batchSizeDefault rec = 10000 \<and> batchSizeMax rec = 50000)
         \<and> queryFilterMode rec = (if spec_captureRatio r < 0.5 then ''regex'' else ''none'')
         \<and> ((\<exists>w \<in> set (warnings rec). isQueryFilterWarning w)
              \<longleftrightarrow> queryFilterMode rec = ''regex'')"
proof -
  have sizes: "if spec_captureRatio r < 0.3
               then batchSizeDefault rec = 5000 \<and> batchSizeMax rec = 10000
               else batchSizeDefault rec = 10000 \<and> batchSizeMax rec = 50000"
    using returned_fields(6,7) [OF assms]
    by (simp add: batchSizeDefault_of_def batchSizeMax_of_def captureRatio_spec)
  have mode: "queryFilterMode rec = (if spec_captureRatio r < 0.5 then ''regex'' else ''none'')"
    using returned_fields(8) [OF assms]
    by (simp add: queryFilterMode_of_def captureRatio_spec)
  have warn: "(\<exists>w \<in> set (warnings rec). isQueryFilterWarning w)
                \<longleftrightarrow> queryFilterMode rec = ''regex''"
    using returned_fields(8,9) [OF assms] in_pushQueryFilter [of r]
      others_not_queryFilter [of r]
    by auto
  show ?thesis
    using sizes mode warn by simp
qed

theorem batch_and_filter_policy_witness:
  "computeRecommendations busy_snapshot = Inr busy_recommendations
   \<and> spec_captureRatio busy_snapshot = 1 / 4
   \<and> batchSizeDefault busy_recommendations = 5000
   \<and> batchSizeMax busy_recommendations = 10000
   \<and> queryFilterMode busy_recommendations = ''regex''
   \<and> (\<exists>w \<in> set (warnings busy_recommendations). isQueryFilterWarning w)"
proof -
  have ratio: "spec_captureRatio busy_snapshot = 1 / 4"
    by (simp add: spec_captureRatio_def busy_snapshot_def)
  with batch_and_filter_policy [OF busy_run] show ?thesis
    by (simp add: busy_run)
qed

subsection \<open>C8: the retention-risk warning\<close>

text \<open>
  Claim C8: the retention-risk warning is in the warnings exactly when the
  archive-window statistic has at least one sample and its minimum is below the returned
  \<open>archiveRetentionHours\<close>; the warning cites that minimum and those hours.
\<close>

theorem retention_risk_warning_iff:
  assumes "computeRecommendations r = Inr rec"
  shows "((\<exists>w \<in> set (warnings rec). isRetentionRiskWarning w)
            \<longleftrightarrow> 1 \<le> samples (archiveWindowHours r)
                 \<and> min_v (archiveWindowHours r) < real_of_int (archiveRetentionHours rec))
         \<and> (\<forall>w \<in> set (warnings rec). isRetentionRiskWarning w \<longrightarrow>
               Fixed 1 (min_v (archiveWindowHours r)) \<in> set w
               \<and> Num (real_of_int (archiveRetentionHours rec)) \<in> set w)"
proof -
  have present: "(\<exists>w \<in> set (warnings rec). isRetentionRiskWarning w)
            \<longleftrightarrow> 1 \<le> samples (archiveWindowHours r)
                 \<and> min_v (archiveWindowHours r) < real_of_int (archiveRetentionHours rec)"
    using returned_fields(1,9) [OF assms] in_pushRetentionRisk [of r]
      others_not_retentionRisk [of r]
    by auto
  have cites: "\<forall>w \<in> set (pushRetentionRisk r).
                 Fixed 1 (min_v (archiveWindowHours r)) \<in> set w
                 \<and> Num (real_of_int (archiveRetentionHours_of r)) \<in> set w"
    by (simp add: pushRetentionRisk_def retentionRiskWarning_def)
  have "\<forall>w \<in> set (warnings rec). isRetentionRiskWarning w \<longrightarrow>
               Fixed 1 (min_v (archiveWindowHours r)) \<in> set w
               \<and> Num (real_of_int (archiveRetentionHours rec)) \<in> set w"
    using returned_fields(1,9) [OF assms] cites others_not_retentionRisk [of r] by auto
  with present show ?thesis
    by simp
qed

theorem retention_risk_warning_iff_witness:
  "computeRecommendations busy_snapshot = Inr busy_recommendations
   \<and> samples (archiveWindowHours busy_snapshot) = 96
   \<and> min_v (archiveWindowHours busy_snapshot) = 3
   \<and> archiveRetentionHours busy_recommendations = 5
   \<and> (\<exists>w \<in> set (warnings busy_recommendations). isRetentionRiskWarning w)
   \<and> retentionRiskWarning 3 5 \<in> set (warnings busy_recommendations)
   \<and> Fixed 1 3 \<in> set (retentionRiskWarning 3 5)
   \<and> Num 5 \<in> set (retentionRiskWarning 3 5)"
proof -
  have facts: "samples (archiveWindowHours busy_snapshot) = 96"
    "min_v (archiveWindowHours busy_snapshot) = 3"
    "archiveRetentionHours busy_recommendations = 5"
    by (simp_all add: busy_snapshot_def busy_recommendations_def)
  have listed: "retentionRiskWarning 3 5 \<in> set (warnings busy_recommendations)"
    by (simp add: busy_recommendations_def)
  have risk: "isRetentionRiskWarning (retentionRiskWarning 3 5)"
    by (simp add: isRetentionRiskWarning_def retentionRiskWarning_def)
  from retention_risk_warning_iff [OF busy_run] facts
  have present: "\<exists>w \<in> set (warnings busy_recommendations). isRetentionRiskWarning w"
    and cites: "\<forall>w \<in> set (warnings busy_recommendations). isRetentionRiskWarning w \<longrightarrow>
                  Fixed 1 3 \<in> set w \<and> Num 5 \<in> set w"
    by simp_all
  from cites listed risk have "Fixed 1 3 \<in> set (retentionRiskWarning 3 5)"
    and "Num 5 \<in> set (retentionRiskWarning 3 5)"
    by blast+
  with facts listed present show ?thesis
    by (simp add: busy_run)
qed

subsection \<open>C9: disk estimate\<close>

text \<open>
  Against claim C9 as worded: the idle database archives \<open>0.3\<close> GB an hour at p95 and is
  given 3 hours of retention; the exact product is \<open>0.9\<close>, the function returns 1.
\<close>

theorem retentionDisk_exact_product_counterexample:
  "computeRecommendations idle_snapshot = Inr idle_recommendations
   \<and> p95 (archiveGbPerHour idle_snapshot)
       * real_of_int (archiveRetentionHours idle_recommendations) = 9 / 10
   \<and> archiveRetentionDiskGb idle_recommendations = 1"
proof -
  have "p95 (archiveGbPerHour idle_snapshot)
          * real_of_int (archiveRetentionHours idle_recommendations) = 9 / 10"
    by (simp add: idle_snapshot_def idle_recommendations_def)
  moreover have "archiveRetentionDiskGb idle_recommendations = 1"
    by (simp add: idle_recommendations_def)
  ultimately show ?thesis
    by (simp add: idle_run)
qed

text \<open>
  Claim C9, amended: the returned \<open>archiveRetentionDiskGb\<close> is \<^verbatim>\<open>Math.round\<close> of the
  product of the archive-generation-rate p95 and the returned retention hours as the
  function computes it in doubles: the product is rounded to the nearest double, and
  that double to the nearest integer, a half rounding up. At 4.1 GB an hour and 15
  hours the double product is just below 61.5 and the result 61, where the exact
  product 61.5 would round to 62.
\<close>

theorem retentionDisk_rounded_double_product:
  assumes "computeRecommendations r = Inr rec"
  shows "archiveRetentionDiskGb rec =
           \<lfloor>toDouble (toDouble (p95 (archiveGbPerHour r))
                        * real_of_int (archiveRetentionHours rec)) + 1 / 2\<rfloor>"
  using returned_fields(1,2) [OF assms]
  by (simp add: retentionDiskGb_def Math_round_def)

theorem retentionDisk_rounded_double_product_witness:
  "computeRecommendations disk41_snapshot = Inr disk41_recommendations
   \<and> p95 (archiveGbPerHour disk41_snapshot) = 41 / 10
   \<and> archiveRetentionHours disk41_recommendations = 15
   \<and> toDouble (toDouble (41 / 10) * 15) = 8655355533852671 / 2 ^ 47
   \<and> \<lfloor>toDouble (toDouble (p95 (archiveGbPerHour disk41_snapshot))
                   * real_of_int (archiveRetentionHours disk41_recommendations)) + 1 / 2\<rfloor>
       = 61
   \<and> archiveRetentionDiskGb disk41_recommendations = 61
   \<and> \<lfloor>41 / 10 * 15 + 1 / (2 :: real)\<rfloor> = 62"
proof -
  have disk: "archiveRetentionDiskGb disk41_recommendations = 61"
    and hours: "archiveRetentionHours disk41_recommendations = 15"
    by (simp_all add: disk41_recommendations_def busy_recommendations_def)
  have rate: "p95 (archiveGbPerHour disk41_snapshot) = 41 / 10"
    by (simp add: disk41_snapshot_def)
  have product: "toDouble (toDouble (41 / 10) * 15) = 8655355533852671 / 2 ^ 47"
    by (simp only: double_41 double_41_times_15)
  have "\<lfloor>toDouble (toDouble (p95 (archiveGbPerHour disk41_snapshot))
                   * real_of_int (archiveRetentionHours disk41_recommendations)) + 1 / 2\<rfloor>
          = archiveRetentionDiskGb disk41_recommendations"
    by (rule retentionDisk_rounded_double_product [OF disk41_run, symmetric])
  with disk hours rate product show ?thesis
    by (simp add: disk41_run)
qed

subsection \<open>C10: the supplemental-logging warning\<close>

text \<open>
  Claim C10: the supplemental-logging warning is in the warnings only when the
  supplemental-logging fact is a non-empty array whose first element has a
  \<^verbatim>\<open>SUPPLEMENTAL_LOG_DATA_MIN\<close> other than the string \<^verbatim>\<open>"YES"\<close> (and then it is); a fact
  that is not an array, a bare string for one, never gives the warning.
\<close>

theorem suppLog_warning_iff:
  assumes "computeRecommendations r = Inr rec"
  shows "((\<exists>w \<in> set (warnings rec). isSuppLogWarning w)
            \<longleftrightarrow> (\<exists>first rest. supplementalLogging r = JArr (first # rest)
                   \<and> optProp first ''SUPPLEMENTAL_LOG_DATA_MIN'' \<noteq> Some (JStr ''YES'')))
         \<and> ((\<forall>xs. supplementalLogging r \<noteq> JArr xs)
              \<longrightarrow> \<not> (\<exists>w \<in> set (warnings rec). isSuppLogWarning w))"
proof -
  have "(\<exists>w \<in> set (warnings rec). isSuppLogWarning w)
            \<longleftrightarrow> (\<exists>first rest. supplementalLogging r = JArr (first # rest)
                   \<and> optProp first ''SUPPLEMENTAL_LOG_DATA_MIN'' \<noteq> Some (JStr ''YES''))"
    using returned_fields(9) [OF assms] in_pushSuppLog [of r] others_not_suppLog [of r]
    by auto
  then show ?thesis
    by auto
qed

theorem suppLog_warning_iff_witness:
  "computeRecommendations raw_suppLog_snapshot = Inr idle_recommendations
   \<and> supplementalLogging raw_suppLog_snapshot = JStr ''NO''
   \<and> \<not> (\<exists>w \<in> set (warnings idle_recommendations). isSuppLogWarning w)"
proof -
  have raw: "supplementalLogging raw_suppLog_snapshot = JStr ''NO''"
    by (simp add: raw_suppLog_snapshot_def)
  then have "\<forall>xs. supplementalLogging raw_suppLog_snapshot \<noteq> JArr xs"
    by simp
  with suppLog_warning_iff [OF raw_suppLog_run] raw show ?thesis
    by (simp add: raw_suppLog_run)
qed

end
